theory Spec2Isabelle
  imports Main "HOL-Library.AList"
begin

section \<open>Data model\<close>

subsection \<open>JavaScript values and compiled schemas\<close>

text \<open>
  Values that the compiler only copies into its output (literal values, enum members,
  materialized defaults). Numbers are never computed with; they are \<^typ>\<open>int\<close> here.
\<close>

datatype jvalue =
    JUndefined
  | JNull
  | JBool bool
  | JNum int
  | JStr string
  | JArr "jvalue list"
  | JObj "(string \<times> jvalue) list"

text \<open>The result of JavaScript's \<^verbatim>\<open>typeof\<close>.\<close>

fun typeof :: "jvalue \<Rightarrow> string" where
  "typeof JUndefined = ''undefined''"
| "typeof JNull = ''object''"
| "typeof (JBool _) = ''boolean''"
| "typeof (JNum _) = ''number''"
| "typeof (JStr _) = ''string''"
| "typeof (JArr _) = ''object''"
| "typeof (JObj _) = ''object''"

text \<open>
  The type \<^verbatim>\<open>JsonSchema\<close> of \<^verbatim>\<open>zodToJsonSchema.ts\<close>. An absent (or
  \<^verbatim>\<open>undefined\<close>) field is \<^const>\<open>None\<close>. A \<^verbatim>\<open>Record<string, JsonSchema>\<close>
  is the list of its entries in enumeration order. The fields \<^verbatim>\<open>$ref\<close>,
  \<^verbatim>\<open>$defs\<close>, \<^verbatim>\<open>definitions\<close> and \<^verbatim>\<open>nullable\<close> of the source type are
  never written by any function of the file and are left out.
\<close>

datatype json = JsonSchema
  (type: "string option")
  (properties: "(string \<times> json) list option")
  (required: "string list option")
  (additionalProperties: "bool option")
  (items: "json option")
  (enum: "jvalue list option")
  (const: "jvalue option")
  (anyOf: "json list option")
  (allOf: "json list option")
  (default: "jvalue option")
  (description: "string option")
  (format: "string option")
  (minItems: "int option")

text \<open>The object literal \<^verbatim>\<open>{}\<close> and the literal \<^verbatim>\<open>{ type: t }\<close>.\<close>

definition emptySchema :: json where
  "emptySchema =
     JsonSchema None None None None None None None None None None None None None"

definition typeSchema :: "string \<Rightarrow> json" where
  "typeSchema t =
     JsonSchema (Some t) None None None None None None None None None None None None"

text \<open>Assignments to one field of a schema object.\<close>

fun set_format :: "string \<Rightarrow> json \<Rightarrow> json" where
  "set_format v (JsonSchema t p r a i e c an al df ds f m) =
     JsonSchema t p r a i e c an al df ds (Some v) m"

fun set_description :: "string \<Rightarrow> json \<Rightarrow> json" where
  "set_description v (JsonSchema t p r a i e c an al df ds f m) =
     JsonSchema t p r a i e c an al df (Some v) f m"

fun set_default :: "jvalue \<Rightarrow> json \<Rightarrow> json" where
  "set_default v (JsonSchema t p r a i e c an al df ds f m) =
     JsonSchema t p r a i e c an al (Some v) ds f m"

fun set_minItems :: "int \<Rightarrow> json \<Rightarrow> json" where
  "set_minItems v (JsonSchema t p r a i e c an al df ds f m) =
     JsonSchema t p r a i e c an al df ds f (Some v)"

subsection \<open>Zod schemas\<close>

text \<open>One entry of \<^verbatim>\<open>_def.checks\<close> of a string schema.\<close>

record check =
  kind :: string
  version :: "string option"

text \<open>
  A Zod schema is its \<^verbatim>\<open>_def\<close>: the optional \<^verbatim>\<open>description\<close> and, by
  \<^verbatim>\<open>typeName\<close>, the fields the compiler reads. \<^verbatim>\<open>ZodArray\<close> carries
  \<^verbatim>\<open>_def.minLength?.value\<close>; \<^verbatim>\<open>ZodObject\<close> carries
  \<^verbatim>\<open>Object.entries(_def.shape())\<close>, \<^verbatim>\<open>ZodNativeEnum\<close> the entries of the
  runtime enum object, both in enumeration order; \<^verbatim>\<open>ZodDefault\<close> carries the value
  \<^verbatim>\<open>_def.defaultValue()\<close> returns; \<^verbatim>\<open>ZodRecord\<close> its key and value types,
  \<^verbatim>\<open>ZodPipeline\<close> its \<^verbatim>\<open>in\<close> and \<^verbatim>\<open>out\<close>.

  A \<^verbatim>\<open>ZodLazy\<close> node holds a getter, a closure that may return a schema the node
  itself is part of. The node carries a reference, and a store \<open>getter\<close> (a parameter of
  the compiler below) gives the schema that calling the getter returns. All other
  children are owned subtrees. \<open>ZodOther n\<close> is any \<^verbatim>\<open>typeName\<close> that the
  \<^verbatim>\<open>switch\<close> of \<^verbatim>\<open>processZodType\<close> does not list.
\<close>

datatype 'z zodDef =
    ZodString "check list"
  | ZodNumber
  | ZodBigInt
  | ZodBoolean
  | ZodNull
  | ZodUndefined
  | ZodLiteral jvalue
  | ZodEnum "string list"
  | ZodNativeEnum "(string \<times> jvalue) list"
  | ZodArray 'z "int option"
  | ZodObject "(string \<times> 'z) list"
  | ZodUnion "'z list"
  | ZodDiscriminatedUnion "'z list"
  | ZodIntersection 'z 'z
  | ZodTuple "'z list"
  | ZodRecord 'z 'z
  | ZodOptional 'z
  | ZodNullable 'z
  | ZodDefault 'z jvalue
  | ZodEffects 'z
  | ZodLazy nat
  | ZodAny
  | ZodUnknown
  | ZodNever
  | ZodVoid
  | ZodDate
  | ZodBranded 'z
  | ZodCatch 'z
  | ZodPipeline 'z 'z
  | ZodReadonly 'z
  | ZodOther string

datatype zod = Zod (zdescription: "string option") (zdef: "zod zodDef")

section \<open>The schema compiler (zodToJsonSchema.ts)\<close>

subsection \<open>Leaves\<close>

text \<open>
  \<^verbatim>\<open>processString\<close>: one pass of the \<^verbatim>\<open>switch\<close> per check, in order; a later
  format check overwrites an earlier one, any other kind changes nothing.
\<close>

definition applyCheck :: "check \<Rightarrow> json \<Rightarrow> json" where
  "applyCheck c result =
     (if kind c = ''email'' then set_format ''email'' result
      else if kind c = ''url'' then set_format ''uri'' result
      else if kind c = ''uuid'' then set_format ''uuid'' result
      else if kind c = ''datetime'' then set_format ''date-time'' result
      else if kind c = ''date'' then set_format ''date'' result
      else if kind c = ''time'' then set_format ''time'' result
      else if kind c = ''ip'' then
        set_format (if version c = Some ''v6'' then ''ipv6'' else ''ipv4'') result
      else result)"

definition processString :: "check list \<Rightarrow> json" where
  "processString checks = fold applyCheck checks (typeSchema ''string'')"

definition processLiteral :: "jvalue \<Rightarrow> json" where
  "processLiteral v =
     JsonSchema None None None None None None (Some v) None None None None None None"

definition processEnum :: "string list \<Rightarrow> json" where
  "processEnum vs =
     JsonSchema None None None None None (Some (map JStr vs)) None None None None None
       None None"

text \<open>
  \<^verbatim>\<open>processNativeEnum\<close>: \<^verbatim>\<open>Object.values\<close> of the enum object, filtered by
  \<^verbatim>\<open>typeof\<close>.
\<close>

definition processNativeEnum :: "(string \<times> jvalue) list \<Rightarrow> json" where
  "processNativeEnum enumObj =
     (let values = filter (\<lambda>val. typeof val = ''string'' \<or> typeof val = ''number'')
                     (map snd enumObj)
      in JsonSchema None None None None None (Some values) None None None None None
           None None)"

subsection \<open>Building the composite nodes from compiled children\<close>

text \<open>
  \<^verbatim>\<open>processArray\<close> after its element type is compiled: \<^verbatim>\<open>minItems\<close> is set only
  for a declared minimum of 0 or 1.
\<close>

definition processArray :: "json \<Rightarrow> int option \<Rightarrow> json" where
  "processArray compiledItems minLength =
     (let result = JsonSchema (Some ''array'') None None None (Some compiledItems) None
                     None None None None None None None
      in case minLength of
           None \<Rightarrow> result
         | Some n \<Rightarrow> if n = 0 \<or> n = 1 then set_minItems n result else result)"

text \<open>
  \<^verbatim>\<open>isOptional\<close> looks at the \<^verbatim>\<open>typeName\<close> of the node itself only.
\<close>

definition isOptional :: "zod \<Rightarrow> bool" where
  "isOptional schema =
     (case zdef schema of
        ZodOptional _ \<Rightarrow> True
      | ZodDefault _ _ \<Rightarrow> True
      | ZodNullable _ \<Rightarrow> False
      | _ \<Rightarrow> False)"

text \<open>
  The test \<^verbatim>\<open>if (zodValue._def.description)\<close>: a description that is present and
  not the empty string. The compiled child is a fresh object, so the assignment to
  \<^verbatim>\<open>properties[key].description\<close> changes this property's schema and nothing else.
\<close>

definition withDescription :: "zod \<Rightarrow> json \<Rightarrow> json" where
  "withDescription zodValue compiled =
     (case zdescription zodValue of
        None \<Rightarrow> compiled
      | Some d \<Rightarrow> if d = [] then compiled else set_description d compiled)"

text \<open>
  The assignment \<^verbatim>\<open>properties[key] = value\<close> on \<^verbatim>\<open>properties\<close>, an object made
  by the literal \<^verbatim>\<open>{}\<close>. The list holds the own entries of the object, which is
  what \<^verbatim>\<open>Object.entries\<close> and \<^verbatim>\<open>JSON.stringify\<close> show of it. For every key but
  one the assignment sets the own entry (a key that is already there keeps its place).
  For the key \<^verbatim>\<open>__proto__\<close> it runs the setter of \<^verbatim>\<open>Object.prototype\<close>: the
  value, an object, becomes the prototype of \<^verbatim>\<open>properties\<close> and no own entry is
  made; the assignment to \<^verbatim>\<open>properties[key].description\<close> that may follow then
  writes to that prototype, and the own entries stay as they are.
\<close>

definition assignProperty ::
  "string \<Rightarrow> json \<Rightarrow> (string \<times> json) list \<Rightarrow> (string \<times> json) list" where
  "assignProperty key v props =
     (if key = ''__proto__'' then props else AList.update key v props)"

text \<open>
  The loop of \<^verbatim>\<open>processObject\<close> over \<^verbatim>\<open>Object.entries(shape)\<close>, given the compiled
  field schemas in the same order: \<^verbatim>\<open>properties[key] = ...\<close> assigns,
  \<^verbatim>\<open>required.push(key)\<close> appends.
\<close>

fun objectLoop ::
  "(string \<times> zod) list \<Rightarrow> json list \<Rightarrow> (string \<times> json) list \<Rightarrow> string list
     \<Rightarrow> (string \<times> json) list \<times> string list" where
  "objectLoop ((key, zodValue) # entries) (compiled # rest) props reqd =
     objectLoop entries rest
       (assignProperty key (withDescription zodValue compiled) props)
       (if \<not> isOptional zodValue then reqd @ [key] else reqd)"
| "objectLoop _ _ props reqd = (props, reqd)"

definition processObject :: "(string \<times> zod) list \<Rightarrow> json list \<Rightarrow> json" where
  "processObject shape compiled =
     (case objectLoop shape compiled [] [] of
        (props, reqd) \<Rightarrow>
          JsonSchema (Some ''object'') (Some props)
            (if length reqd > 0 then Some reqd else None)
            (Some False) None None None None None None None None None)"

definition anyOfSchema :: "json list \<Rightarrow> json" where
  "anyOfSchema options =
     JsonSchema None None None None None None None (Some options) None None None None
       None"

definition processIntersection :: "json \<Rightarrow> json \<Rightarrow> json" where
  "processIntersection left right =
     JsonSchema None None None None None None None None (Some [left, right]) None None
       None None"

definition processTuple :: "json list \<Rightarrow> json" where
  "processTuple compiledItems =
     JsonSchema (Some ''array'') None None None
       (Some (case compiledItems of [x] \<Rightarrow> x | _ \<Rightarrow> anyOfSchema compiledItems))
       None None None None None None None None"

definition processRecord :: json where
  "processRecord =
     JsonSchema (Some ''object'') None None (Some False) None None None None None None
       None None None"

definition processNullable :: "json \<Rightarrow> json" where
  "processNullable innerSchema = anyOfSchema [innerSchema, typeSchema ''null'']"

definition processDefault :: "json \<Rightarrow> jvalue \<Rightarrow> json" where
  "processDefault innerSchema defaultValue = set_default defaultValue innerSchema"

subsection \<open>The recursion\<close>

text \<open>
  \<^verbatim>\<open>Array.map\<close> with a callback that may not return: the results in order, or no
  result at all.
\<close>

fun mapM :: "('a \<Rightarrow> 'b option) \<Rightarrow> 'a list \<Rightarrow> 'b list option" where
  "mapM f [] = Some []"
| "mapM f (x # xs) =
     Option.bind (f x) (\<lambda>y. Option.bind (mapM f xs) (\<lambda>ys. Some (y # ys)))"

lemma mapM_mono [partial_function_mono]:
  assumes "\<And>x. mono_option (\<lambda>f. B f x)"
  shows "mono_option (\<lambda>f. mapM (B f) xs)"
proof (induction xs)
  case Nil
  show ?case by (simp add: option.const_mono)
next
  case (Cons x xs)
  show ?case
    unfolding mapM.simps
    by (intro bind_mono assms Cons.IH option.const_mono)
qed

text \<open>
  \<^verbatim>\<open>processZodType\<close>. The function never throws; what it can do besides returning
  a schema is recurse without end, through the getter of a lazy node. \<^const>\<open>None\<close> is
  that outcome. The \<^verbatim>\<open>definitions\<close> argument of the source is handed down unchanged
  and never read or written, and \<^verbatim>\<open>console.warn\<close> in the default arm writes a log
  line only; both are left out.
\<close>

partial_function (option) processZodType :: "(nat \<Rightarrow> zod) \<Rightarrow> zod \<Rightarrow> json option" where
  "processZodType getter schema =
     (case zdef schema of
        ZodString checks \<Rightarrow> Some (processString checks)
      | ZodNumber \<Rightarrow> Some (typeSchema ''number'')
      | ZodBigInt \<Rightarrow> Some (typeSchema ''integer'')
      | ZodBoolean \<Rightarrow> Some (typeSchema ''boolean'')
      | ZodNull \<Rightarrow> Some (typeSchema ''null'')
      | ZodUndefined \<Rightarrow> Some (typeSchema ''null'')
      | ZodLiteral v \<Rightarrow> Some (processLiteral v)
      | ZodEnum vs \<Rightarrow> Some (processEnum vs)
      | ZodNativeEnum enumObj \<Rightarrow> Some (processNativeEnum enumObj)
      | ZodArray elementType minLength \<Rightarrow>
          Option.bind (processZodType getter elementType)
            (\<lambda>compiledItems. Some (processArray compiledItems minLength))
      | ZodObject shape \<Rightarrow>
          Option.bind (mapM (processZodType getter) (map snd shape))
            (\<lambda>compiled. Some (processObject shape compiled))
      | ZodUnion options \<Rightarrow>
          Option.bind (mapM (processZodType getter) options)
            (\<lambda>compiled. Some (anyOfSchema compiled))
      | ZodDiscriminatedUnion options \<Rightarrow>
          Option.bind (mapM (processZodType getter) options)
            (\<lambda>compiled. Some (anyOfSchema compiled))
      | ZodIntersection l r \<Rightarrow>
          Option.bind (processZodType getter l)
            (\<lambda>left. Option.bind (processZodType getter r)
               (\<lambda>right. Some (processIntersection left right)))
      | ZodTuple tupleItems \<Rightarrow>
          Option.bind (mapM (processZodType getter) tupleItems)
            (\<lambda>compiled. Some (processTuple compiled))
      | ZodRecord _ _ \<Rightarrow> Some processRecord
      | ZodOptional innerType \<Rightarrow> processZodType getter innerType
      | ZodNullable innerType \<Rightarrow>
          Option.bind (processZodType getter innerType)
            (\<lambda>innerSchema. Some (processNullable innerSchema))
      | ZodDefault innerType defaultValue \<Rightarrow>
          Option.bind (processZodType getter innerType)
            (\<lambda>innerSchema. Some (processDefault innerSchema defaultValue))
      | ZodEffects inner \<Rightarrow> processZodType getter inner
      | ZodLazy ref \<Rightarrow> processZodType getter (getter ref)
      | ZodAny \<Rightarrow> Some emptySchema
      | ZodUnknown \<Rightarrow> Some emptySchema
      | ZodNever \<Rightarrow> Some (typeSchema ''null'')
      | ZodVoid \<Rightarrow> Some (typeSchema ''null'')
      | ZodDate \<Rightarrow> Some (set_format ''date-time'' (typeSchema ''string''))
      | ZodBranded inner \<Rightarrow> processZodType getter inner
      | ZodCatch innerType \<Rightarrow> processZodType getter innerType
      | ZodPipeline _ out \<Rightarrow> processZodType getter out
      | ZodReadonly innerType \<Rightarrow> processZodType getter innerType
      | ZodOther _ \<Rightarrow> Some emptySchema)"

declare processZodType.simps [code]

definition zodToJsonSchema :: "(nat \<Rightarrow> zod) \<Rightarrow> zod \<Rightarrow> json option" where
  "zodToJsonSchema getter zodSchema = processZodType getter zodSchema"

text \<open>
  \<^verbatim>\<open>createAnthropicOutputFormat\<close>. Its second argument \<^verbatim>\<open>_name\<close> is never used
  and is left out.
\<close>

record outputFormat =
  format_type :: string
  schema :: json

definition createAnthropicOutputFormat :: "(nat \<Rightarrow> zod) \<Rightarrow> zod \<Rightarrow> outputFormat option" where
  "createAnthropicOutputFormat getter zodSchema =
     Option.bind (zodToJsonSchema getter zodSchema)
       (\<lambda>jsonSchema.
          if type jsonSchema \<noteq> Some ''object'' then
            Some \<lparr>format_type = ''json_schema'',
                  schema = JsonSchema (Some ''object'') (Some [(''result'', jsonSchema)])
                             (Some [''result'']) (Some False) None None None None None
                             None None None None\<rparr>
          else Some \<lparr>format_type = ''json_schema'', schema = jsonSchema\<rparr>)"

subsection \<open>Properties of compiled schemas and of schema trees\<close>

text \<open>
  Every node of a compiled schema whose \<^verbatim>\<open>type\<close> is \<^verbatim>\<open>"object"\<close> has
  \<^verbatim>\<open>additionalProperties === false\<close>; the nodes are the schema itself and, at any
  depth, the schemas under \<^verbatim>\<open>properties\<close>, \<^verbatim>\<open>items\<close>, \<^verbatim>\<open>anyOf\<close> and
  \<^verbatim>\<open>allOf\<close>.
\<close>

fun closedObjects :: "json \<Rightarrow> bool" where
  "closedObjects (JsonSchema t p r a i e c an al df ds f m) =
     ((t = Some ''object'' \<longrightarrow> a = Some False)
      \<and> (case p of None \<Rightarrow> True | Some ps \<Rightarrow> \<forall>kv \<in> set ps. closedObjects (snd kv))
      \<and> (case i of None \<Rightarrow> True | Some it \<Rightarrow> closedObjects it)
      \<and> (case an of None \<Rightarrow> True | Some xs \<Rightarrow> \<forall>x \<in> set xs. closedObjects x)
      \<and> (case al of None \<Rightarrow> True | Some xs \<Rightarrow> \<forall>x \<in> set xs. closedObjects x))"

text \<open>The entries of \<^verbatim>\<open>required\<close>; none when the field is \<^verbatim>\<open>undefined\<close>.\<close>

definition requiredKeys :: "json \<Rightarrow> string list" where
  "requiredKeys j = (case required j of None \<Rightarrow> [] | Some ks \<Rightarrow> ks)"

text \<open>The own entry of \<^verbatim>\<open>properties\<close> at a key, if the compiled schema has one.\<close>

definition property :: "json \<Rightarrow> string \<Rightarrow> json option" where
  "property j key = (case properties j of None \<Rightarrow> None | Some ps \<Rightarrow> map_of ps key)"

text \<open>
  The schemas on which \<^verbatim>\<open>processZodType\<close> calls itself directly when it compiles a
  node: the value type of a record and the input side of a pipeline are not among them,
  the schema a lazy getter returns is.
\<close>

definition compiledChildren :: "(nat \<Rightarrow> zod) \<Rightarrow> zod \<Rightarrow> zod list" where
  "compiledChildren getter zodSchema =
     (case zdef zodSchema of
        ZodArray elementType _ \<Rightarrow> [elementType]
      | ZodObject shape \<Rightarrow> map snd shape
      | ZodUnion options \<Rightarrow> options
      | ZodDiscriminatedUnion options \<Rightarrow> options
      | ZodIntersection l r \<Rightarrow> [l, r]
      | ZodTuple tupleItems \<Rightarrow> tupleItems
      | ZodOptional innerType \<Rightarrow> [innerType]
      | ZodNullable innerType \<Rightarrow> [innerType]
      | ZodDefault innerType _ \<Rightarrow> [innerType]
      | ZodEffects inner \<Rightarrow> [inner]
      | ZodLazy ref \<Rightarrow> [getter ref]
      | ZodBranded inner \<Rightarrow> [inner]
      | ZodCatch innerType \<Rightarrow> [innerType]
      | ZodPipeline _ out \<Rightarrow> [out]
      | ZodReadonly innerType \<Rightarrow> [innerType]
      | _ \<Rightarrow> [])"

text \<open>
  A schema unfolds finitely when every chain of compiled children that starts at it,
  lazy getters followed, ends.
\<close>

inductive unfoldsFinitely :: "(nat \<Rightarrow> zod) \<Rightarrow> zod \<Rightarrow> bool" for getter where
  unfold: "(\<And>c. c \<in> set (compiledChildren getter zodSchema) \<Longrightarrow> unfoldsFinitely getter c)
     \<Longrightarrow> unfoldsFinitely getter zodSchema"

text \<open>
  The condition of the specification, "without unterminated self-reference": the
  recursion reaches a terminating base case through an optional wrapper or through an
  arm of a union. An optional wrapper is a base case (the value may be absent), a union
  needs one arm that reaches a base case, and every other node needs all its compiled
  children to reach one.
\<close>

inductive reachesBaseCase :: "(nat \<Rightarrow> zod) \<Rightarrow> zod \<Rightarrow> bool" for getter where
  optional_arm: "zdef zodSchema = ZodOptional innerType \<Longrightarrow> reachesBaseCase getter zodSchema"
| union_arm: "zdef zodSchema = ZodUnion options \<Longrightarrow> arm \<in> set options
     \<Longrightarrow> reachesBaseCase getter arm \<Longrightarrow> reachesBaseCase getter zodSchema"
| discriminated_union_arm: "zdef zodSchema = ZodDiscriminatedUnion options
     \<Longrightarrow> arm \<in> set options \<Longrightarrow> reachesBaseCase getter arm
     \<Longrightarrow> reachesBaseCase getter zodSchema"
| descend: "(\<And>c. c \<in> set (compiledChildren getter zodSchema) \<Longrightarrow> reachesBaseCase getter c)
     \<Longrightarrow> reachesBaseCase getter zodSchema"

section \<open>Tool invocation (customTools.ts)\<close>

text \<open>
  A \<^verbatim>\<open>ToolDefinition\<close>, reduced to the three members \<^verbatim>\<open>executeToolWithDefinition\<close>
  uses. A call runs in a world \<open>'w\<close> (whatever the callee can read and change).
  The promise of \<^verbatim>\<open>implementation\<close> is awaited: \<^const>\<open>Inl\<close> is an exception it
  throws or the rejection of its promise, \<^const>\<open>Inr\<close> the value the promise resolves
  to. The two hooks are optional members, and what they return is not awaited:
  \<^const>\<open>Inl\<close> is an exception the hook throws while it is called, \<^const>\<open>Inr\<close> is any
  return, also that of a promise that rejects later, which the function never sees.
\<close>

record ('a, 'r, 'e, 'w) ToolDefinition =
  implementation :: "'a \<Rightarrow> 'w \<Rightarrow> ('e + 'r) \<times> 'w"
  onStart :: "('a \<Rightarrow> 'w \<Rightarrow> ('e + unit) \<times> 'w) option"
  onComplete :: "('a \<Rightarrow> 'r \<Rightarrow> 'w \<Rightarrow> ('e + unit) \<times> 'w) option"

text \<open>
  What happened during an invocation, in order. The log is an observer's record; the
  function itself does not read it.
\<close>

datatype ('a, 'r, 'e) event =
    OnStartCalled 'a
  | ImplementationCalled 'a
  | ImplementationResolved 'r
  | ImplementationRejected 'e
  | OnCompleteCalled 'a 'r

definition callOnStart ::
  "('a, 'r, 'e, 'w) ToolDefinition \<Rightarrow> 'a \<Rightarrow> 'w \<times> ('a, 'r, 'e) event list
     \<Rightarrow> ('e + unit) \<times> 'w \<times> ('a, 'r, 'e) event list" where
  "callOnStart toolDef args s =
     (case s of (w, log) \<Rightarrow>
        (case onStart toolDef of
           None \<Rightarrow> (Inr (), w, log)
         | Some hook \<Rightarrow>
             (case hook args w of (out, w') \<Rightarrow> (out, w', log @ [OnStartCalled args]))))"

definition callImplementation ::
  "('a, 'r, 'e, 'w) ToolDefinition \<Rightarrow> 'a \<Rightarrow> 'w \<times> ('a, 'r, 'e) event list
     \<Rightarrow> ('e + 'r) \<times> 'w \<times> ('a, 'r, 'e) event list" where
  "callImplementation toolDef args s =
     (case s of (w, log) \<Rightarrow>
        (case implementation toolDef args w of
           (Inl e, w') \<Rightarrow>
             (Inl e, w', log @ [ImplementationCalled args, ImplementationRejected e])
         | (Inr result, w') \<Rightarrow>
             (Inr result, w',
              log @ [ImplementationCalled args, ImplementationResolved result])))"

definition callOnComplete ::
  "('a, 'r, 'e, 'w) ToolDefinition \<Rightarrow> 'a \<Rightarrow> 'r \<Rightarrow> 'w \<times> ('a, 'r, 'e) event list
     \<Rightarrow> ('e + unit) \<times> 'w \<times> ('a, 'r, 'e) event list" where
  "callOnComplete toolDef args result s =
     (case s of (w, log) \<Rightarrow>
        (case onComplete toolDef of
           None \<Rightarrow> (Inr (), w, log)
         | Some hook \<Rightarrow>
             (case hook args result w of
                (out, w') \<Rightarrow> (out, w', log @ [OnCompleteCalled args result]))))"

text \<open>
  \<^verbatim>\<open>executeToolWithDefinition\<close>: the four statements in order. The function is
  \<^verbatim>\<open>async\<close> and has no \<^verbatim>\<open>try\<close>, so an exception of any of the three calls, or a
  rejection of the awaited promise, ends it and is the rejection of its own promise.
\<close>

definition executeToolWithDefinition ::
  "('a, 'r, 'e, 'w) ToolDefinition \<Rightarrow> 'a \<Rightarrow> 'w \<times> ('a, 'r, 'e) event list
     \<Rightarrow> ('e + 'r) \<times> 'w \<times> ('a, 'r, 'e) event list" where
  "executeToolWithDefinition toolDef args s0 =
     (case callOnStart toolDef args s0 of
        (Inl e, s1) \<Rightarrow> (Inl e, s1)
      | (Inr _, s1) \<Rightarrow>
          (case callImplementation toolDef args s1 of
             (Inl e, s2) \<Rightarrow> (Inl e, s2)
           | (Inr result, s2) \<Rightarrow>
               (case callOnComplete toolDef args result s2 of
                  (Inl e, s3) \<Rightarrow> (Inl e, s3)
                | (Inr _, s3) \<Rightarrow> (Inr result, s3))))"

section \<open>Example inputs\<close>

text \<open>A getter store for schemas whose lazy nodes, if any, all return \<^verbatim>\<open>z.any()\<close>.\<close>

definition noLazy :: "nat \<Rightarrow> zod" where
  "noLazy ref = Zod None ZodAny"

text \<open>
  \<^verbatim>\<open>z.object({a: z.string(), b: z.number().optional(),
  c: z.boolean().nullable().describe("flag"), n: z.number().default(5)})\<close>
  and the schema it compiles to.
\<close>

definition profile :: zod where
  "profile =
     Zod None (ZodObject
       [(''a'', Zod None (ZodString [])),
        (''b'', Zod None (ZodOptional (Zod None ZodNumber))),
        (''c'', Zod (Some ''flag'') (ZodNullable (Zod None ZodBoolean))),
        (''n'', Zod None (ZodDefault (Zod None ZodNumber) (JNum 5)))])"

definition compiledProfile :: json where
  "compiledProfile =
     JsonSchema (Some ''object'')
       (Some [(''a'', typeSchema ''string''),
              (''b'', typeSchema ''number''),
              (''c'', set_description ''flag''
                        (anyOfSchema [typeSchema ''boolean'', typeSchema ''null''])),
              (''n'', set_default (JNum 5) (typeSchema ''number''))])
       (Some [''a'', ''c'']) (Some False) None None None None None None None None None"

text \<open>\<^verbatim>\<open>z.object({b: z.number().optional(), n: z.number().default(5)})\<close>.\<close>

definition settings :: zod where
  "settings =
     Zod None (ZodObject
       [(''b'', Zod None (ZodOptional (Zod None ZodNumber))),
        (''n'', Zod None (ZodDefault (Zod None ZodNumber) (JNum 5)))])"

text \<open>
  The self-referential schema
  \<^verbatim>\<open>const Category = z.object({name: z.string(),
  parent: z.lazy(() => Category).optional()})\<close>: the getter of its one lazy node
  returns the schema itself, and the reference sits under an optional wrapper.
\<close>

definition category :: zod where
  "category =
     Zod None (ZodObject
       [(''name'', Zod None (ZodString [])),
        (''parent'', Zod None (ZodOptional (Zod None (ZodLazy 0))))])"

definition categoryGetter :: "nat \<Rightarrow> zod" where
  "categoryGetter ref = category"

text \<open>
  The object TypeScript emits for \<^verbatim>\<open>enum Color { Red, Green }\<close>, entries in the
  order \<^verbatim>\<open>Object.values\<close> visits them (integer keys first): the reverse mappings
  \<^verbatim>\<open>0 -> "Red"\<close>, \<^verbatim>\<open>1 -> "Green"\<close>, then the members \<^verbatim>\<open>Red -> 0\<close>,
  \<^verbatim>\<open>Green -> 1\<close>.
\<close>

definition colorEnum :: "(string \<times> jvalue) list" where
  "colorEnum =
     [(''0'', JStr ''Red''), (''1'', JStr ''Green''),
      (''Red'', JNum 0), (''Green'', JNum 1)]"

text \<open>
  Two tools over a world that lists what was rendered and run. The first has both
  hooks and an implementation that rejects the argument 0; the hook of the second
  throws.
\<close>

definition renderedTool :: "(nat, nat, string, string list) ToolDefinition" where
  "renderedTool =
     \<lparr>implementation = (\<lambda>args w. (if args = 0 then Inl ''boom'' else Inr (2 * args),
                                    w @ [''run''])),
      onStart = Some (\<lambda>args w. (Inr (), w @ [''start''])),
      onComplete = Some (\<lambda>args result w. (Inr (), w @ [''success'']))\<rparr>"

definition failingStartTool :: "(nat, nat, string, string list) ToolDefinition" where
  "failingStartTool =
     \<lparr>implementation = (\<lambda>args w. (Inr (Suc args), w @ [''run''])),
      onStart = Some (\<lambda>args w. (Inl ''render failed'', w)),
      onComplete = None\<rparr>"

section \<open>Facts about the compiler\<close>

subsection \<open>Unfolding the compiler at a node\<close>

lemma processZodType_Zod:
  "processZodType getter (Zod d def) =
     (case def of
        ZodString checks \<Rightarrow> Some (processString checks)
      | ZodNumber \<Rightarrow> Some (typeSchema ''number'')
      | ZodBigInt \<Rightarrow> Some (typeSchema ''integer'')
      | ZodBoolean \<Rightarrow> Some (typeSchema ''boolean'')
      | ZodNull \<Rightarrow> Some (typeSchema ''null'')
      | ZodUndefined \<Rightarrow> Some (typeSchema ''null'')
      | ZodLiteral v \<Rightarrow> Some (processLiteral v)
      | ZodEnum vs \<Rightarrow> Some (processEnum vs)
      | ZodNativeEnum enumObj \<Rightarrow> Some (processNativeEnum enumObj)
      | ZodArray elementType minLength \<Rightarrow>
          Option.bind (processZodType getter elementType)
            (\<lambda>compiledItems. Some (processArray compiledItems minLength))
      | ZodObject shape \<Rightarrow>
          Option.bind (mapM (processZodType getter) (map snd shape))
            (\<lambda>compiled. Some (processObject shape compiled))
      | ZodUnion options \<Rightarrow>
          Option.bind (mapM (processZodType getter) options)
            (\<lambda>compiled. Some (anyOfSchema compiled))
      | ZodDiscriminatedUnion options \<Rightarrow>
          Option.bind (mapM (processZodType getter) options)
            (\<lambda>compiled. Some (anyOfSchema compiled))
      | ZodIntersection l r \<Rightarrow>
          Option.bind (processZodType getter l)
            (\<lambda>left. Option.bind (processZodType getter r)
               (\<lambda>right. Some (processIntersection left right)))
      | ZodTuple tupleItems \<Rightarrow>
          Option.bind (mapM (processZodType getter) tupleItems)
            (\<lambda>compiled. Some (processTuple compiled))
      | ZodRecord _ _ \<Rightarrow> Some processRecord
      | ZodOptional innerType \<Rightarrow> processZodType getter innerType
      | ZodNullable innerType \<Rightarrow>
          Option.bind (processZodType getter innerType)
            (\<lambda>innerSchema. Some (processNullable innerSchema))
      | ZodDefault innerType defaultValue \<Rightarrow>
          Option.bind (processZodType getter innerType)
            (\<lambda>innerSchema. Some (processDefault innerSchema defaultValue))
      | ZodEffects inner \<Rightarrow> processZodType getter inner
      | ZodLazy ref \<Rightarrow> processZodType getter (getter ref)
      | ZodAny \<Rightarrow> Some emptySchema
      | ZodUnknown \<Rightarrow> Some emptySchema
      | ZodNever \<Rightarrow> Some (typeSchema ''null'')
      | ZodVoid \<Rightarrow> Some (typeSchema ''null'')
      | ZodDate \<Rightarrow> Some (set_format ''date-time'' (typeSchema ''string''))
      | ZodBranded inner \<Rightarrow> processZodType getter inner
      | ZodCatch innerType \<Rightarrow> processZodType getter innerType
      | ZodPipeline _ out \<Rightarrow> processZodType getter out
      | ZodReadonly innerType \<Rightarrow> processZodType getter innerType
      | ZodOther _ \<Rightarrow> Some emptySchema)"
  by (subst processZodType.simps) simp

lemma mapM_Some_iff:
  "mapM f xs = Some ys \<longleftrightarrow> list_all2 (\<lambda>x y. f x = Some y) xs ys"
  by (induction xs arbitrary: ys) (auto simp: bind_eq_Some_conv list_all2_Cons1)

lemma list_all2_results:
  assumes "list_all2 (\<lambda>x y. f x = Some y) xs ys" and "\<And>x y. f x = Some y \<Longrightarrow> P y"
  shows "\<forall>y \<in> set ys. P y"
  using assms by (induction xs ys rule: list_all2_induct) auto

subsection \<open>Closed objects\<close>

lemma closedObjects_set_format [simp]: "closedObjects (set_format v j) = closedObjects j"
  by (cases j) simp

lemma closedObjects_set_description [simp]:
  "closedObjects (set_description v j) = closedObjects j"
  by (cases j) simp

lemma closedObjects_set_default [simp]: "closedObjects (set_default v j) = closedObjects j"
  by (cases j) simp

lemma closedObjects_set_minItems [simp]: "closedObjects (set_minItems v j) = closedObjects j"
  by (cases j) simp

lemma closedObjects_typeSchema [simp]: "closedObjects (typeSchema t) \<longleftrightarrow> t \<noteq> ''object''"
  by (simp add: typeSchema_def)

lemma closedObjects_applyCheck [simp]: "closedObjects (applyCheck c j) = closedObjects j"
  by (simp add: applyCheck_def)

lemma closedObjects_fold_applyCheck:
  "closedObjects (fold applyCheck checks j) = closedObjects j"
  by (induction checks arbitrary: j) simp_all

lemma closedObjects_processString [simp]: "closedObjects (processString checks)"
  by (simp add: processString_def closedObjects_fold_applyCheck)

lemma closedObjects_withDescription [simp]:
  "closedObjects (withDescription z j) = closedObjects j"
  by (simp add: withDescription_def split: option.splits)

lemma closedObjects_anyOfSchema [simp]:
  "closedObjects (anyOfSchema js) \<longleftrightarrow> (\<forall>j \<in> set js. closedObjects j)"
  by (simp add: anyOfSchema_def)

lemma closedObjects_processArray [simp]:
  "closedObjects (processArray j m) = closedObjects j"
  by (simp add: processArray_def Let_def split: option.splits)

lemma closedObjects_processTuple [simp]:
  "closedObjects (processTuple js) \<longleftrightarrow> (\<forall>j \<in> set js. closedObjects j)"
  by (auto simp: processTuple_def split: list.splits)

lemma set_update_subset: "set (AList.update k v ps) \<subseteq> insert (k, v) (set ps)"
  by (induction ps) auto

lemma set_assignProperty_subset: "set (assignProperty k v ps) \<subseteq> insert (k, v) (set ps)"
  using set_update_subset [of k v ps] by (auto simp: assignProperty_def)

lemma objectLoop_closed:
  assumes "\<forall>kv \<in> set props. closedObjects (snd kv)" and "\<forall>c \<in> set compiled. closedObjects c"
  shows "\<forall>kv \<in> set (fst (objectLoop shape compiled props reqd)). closedObjects (snd kv)"
  using assms
proof (induction shape compiled props reqd rule: objectLoop.induct)
  case (1 key zodValue entries compiled rest props reqd)
  have "\<forall>kv \<in> set (assignProperty key (withDescription zodValue compiled) props).
          closedObjects (snd kv)"
    using 1(2,3) set_assignProperty_subset [of key "withDescription zodValue compiled" props]
    by auto
  with 1 show ?case by simp
qed simp_all

lemma closedObjects_processObject:
  "\<forall>c \<in> set compiled. closedObjects c \<Longrightarrow> closedObjects (processObject shape compiled)"
  using objectLoop_closed [of "[]" compiled shape "[]"]
  by (auto simp: processObject_def split: prod.splits)

subsection \<open>Objects: the required list and the properties\<close>

lemma objectLoop_required:
  "length compiled = length shape \<Longrightarrow>
   snd (objectLoop shape compiled props reqd) =
     reqd @ map fst (filter (\<lambda>kv. \<not> isOptional (snd kv)) shape)"
  by (induction shape compiled props reqd rule: objectLoop.induct) auto

lemma objectLoop_other_key:
  "key \<notin> fst ` set shape \<Longrightarrow>
   map_of (fst (objectLoop shape compiled props reqd)) key = map_of props key"
  by (induction shape compiled props reqd rule: objectLoop.induct)
     (auto simp: assignProperty_def update_conv')

lemma objectLoop_property:
  assumes "list_all2 (\<lambda>kv c. Q (snd kv) c) shape compiled"
    and "distinct (map fst shape)" and "(key, field) \<in> set shape"
    and "key \<noteq> ''__proto__''"
  shows "\<exists>c. Q field c \<and>
           map_of (fst (objectLoop shape compiled props reqd)) key
             = Some (withDescription field c)"
  using assms
proof (induction shape compiled arbitrary: props reqd rule: list_all2_induct)
  case Nil
  then show ?case by simp
next
  case (Cons kv shape c compiled)
  obtain k z where kv: "kv = (k, z)" by (cases kv)
  show ?case
  proof (cases "(key, field) = kv")
    case True
    with kv Cons.prems have "key \<notin> fst ` set shape" by auto
    with True kv Cons.hyps(1) Cons.prems(3) show ?thesis
      by (auto simp: objectLoop_other_key assignProperty_def update_conv'
          intro!: exI [of _ c])
  next
    case False
    with Cons.prems kv have "distinct (map fst shape)" "(key, field) \<in> set shape" by auto
    from Cons.IH [OF this Cons.prems(3)] kv show ?thesis by simp
  qed
qed

lemma processObject_required:
  "length compiled = length shape \<Longrightarrow>
   requiredKeys (processObject shape compiled) =
     map fst (filter (\<lambda>kv. \<not> isOptional (snd kv)) shape)"
  using objectLoop_required [of compiled shape "[]" "[]"]
  by (auto simp: processObject_def requiredKeys_def split: prod.splits)

lemma processObject_property:
  "property (processObject shape compiled) key
     = map_of (fst (objectLoop shape compiled [] [])) key"
  by (simp add: processObject_def property_def split: prod.splits)

lemma compiled_object:
  assumes "processZodType getter (Zod d (ZodObject shape)) = Some result"
  obtains compiled where "result = processObject shape compiled"
    and "list_all2 (\<lambda>kv c. processZodType getter (snd kv) = Some c) shape compiled"
  using assms
  by (auto simp: processZodType_Zod bind_eq_Some_conv mapM_Some_iff list_all2_map1)

lemma compiled_fields:
  assumes "processZodType getter (Zod d (ZodObject shape)) = Some result"
    and "(key, field) \<in> set shape"
  shows "\<exists>c. processZodType getter field = Some c"
proof -
  from assms(1) obtain compiled where
    "list_all2 (\<lambda>kv c. processZodType getter (snd kv) = Some c) shape compiled"
    by (rule compiled_object)
  then show ?thesis
    using assms(2) by (induction shape compiled rule: list_all2_induct) auto
qed

lemma compiled_property:
  assumes "processZodType getter (Zod d (ZodObject shape)) = Some result"
    and "distinct (map fst shape)" and "(key, field) \<in> set shape"
    and "key \<noteq> ''__proto__''"
  shows "\<exists>c. processZodType getter field = Some c \<and>
           property result key = Some (withDescription field c)"
proof -
  from assms(1) obtain compiled where result: "result = processObject shape compiled"
    and all: "list_all2 (\<lambda>kv c. processZodType getter (snd kv) = Some c) shape compiled"
    by (rule compiled_object)
  from objectLoop_property [OF all assms(2,3,4), of "[]" "[]"] result show ?thesis
    by (simp add: processObject_property)
qed

lemma compiled_required:
  assumes "processZodType getter (Zod d (ZodObject shape)) = Some result"
  shows "requiredKeys result = map fst (filter (\<lambda>kv. \<not> isOptional (snd kv)) shape)"
proof -
  from assms obtain compiled where result: "result = processObject shape compiled"
    and all: "list_all2 (\<lambda>kv c. processZodType getter (snd kv) = Some c) shape compiled"
    by (rule compiled_object)
  from all have "length compiled = length shape"
    by (simp add: list_all2_lengthD)
  with result show ?thesis
    by (simp add: processObject_required)
qed

lemma profile_compiled: "processZodType noLazy profile = Some compiledProfile"
  by code_simp

text \<open>
  A field under the key \<^verbatim>\<open>__proto__\<close> is compiled and, unless optional, required,
  and has no entry in \<^verbatim>\<open>properties\<close>.
\<close>

lemma proto_key_no_own_entry:
  "processZodType noLazy
     (Zod None (ZodObject
        [(''__proto__'', Zod None (ZodString [])), (''a'', Zod None (ZodString []))]))
   = Some (JsonSchema (Some ''object'') (Some [(''a'', typeSchema ''string'')])
       (Some [''__proto__'', ''a'']) (Some False) None None None None None None None None
       None)"
  by code_simp

subsection \<open>Arrays\<close>

lemma type_processArray: "type (processArray compiledItems minLength) = Some ''array''"
  by (simp add: processArray_def Let_def split: option.splits)

lemma minItems_processArray:
  "minItems (processArray compiledItems minLength)
     = (if minLength = Some 0 \<or> minLength = Some 1 then minLength else None)"
  by (simp add: processArray_def Let_def split: option.splits)

subsection \<open>When the compiler returns\<close>

lemma mapM_total:
  "(\<And>x. x \<in> set xs \<Longrightarrow> \<exists>y. f x = Some y) \<Longrightarrow> \<exists>ys. mapM f xs = Some ys"
  by (induction xs) (fastforce simp: bind_eq_Some_conv)+

lemma list_all2_args:
  "list_all2 (\<lambda>x y. f x = Some y) xs ys \<Longrightarrow> x \<in> set xs \<Longrightarrow> \<exists>y. f x = Some y"
  by (induction xs ys rule: list_all2_induct) auto

lemma list_all2_args_snd:
  "list_all2 (\<lambda>x y. f x = Some y) (map snd xs) ys \<Longrightarrow> (a, x) \<in> set xs
     \<Longrightarrow> \<exists>y. f x = Some y"
  using list_all2_args [of f "map snd xs" ys x] by force

lemma unfoldsFinitely_returns:
  assumes "unfoldsFinitely getter zodSchema"
  shows "\<exists>result. processZodType getter zodSchema = Some result"
  using assms
proof (induction rule: unfoldsFinitely.induct)
  case (unfold zodSchema)
  then have child: "\<exists>r. processZodType getter c = Some r"
    if "c \<in> set (compiledChildren getter zodSchema)" for c
    using that by blast
  obtain d def where s: "zodSchema = Zod d def"
    by (cases zodSchema)
  show ?case
  proof (cases def)
    case (ZodObject shape)
    with s child have "\<exists>ys. mapM (processZodType getter) (map snd shape) = Some ys"
      by (intro mapM_total) (simp add: compiledChildren_def)
    with s ZodObject show ?thesis
      by (auto simp: processZodType_Zod)
  next
    case (ZodUnion options)
    with s child have "\<exists>ys. mapM (processZodType getter) options = Some ys"
      by (intro mapM_total) (simp add: compiledChildren_def)
    with s ZodUnion show ?thesis
      by (auto simp: processZodType_Zod)
  next
    case (ZodDiscriminatedUnion options)
    with s child have "\<exists>ys. mapM (processZodType getter) options = Some ys"
      by (intro mapM_total) (simp add: compiledChildren_def)
    with s ZodDiscriminatedUnion show ?thesis
      by (auto simp: processZodType_Zod)
  next
    case (ZodTuple tupleItems)
    with s child have "\<exists>ys. mapM (processZodType getter) tupleItems = Some ys"
      by (intro mapM_total) (simp add: compiledChildren_def)
    with s ZodTuple show ?thesis
      by (auto simp: processZodType_Zod)
  next
    case (ZodIntersection l r)
    with s child [of l] child [of r] show ?thesis
      by (auto simp: processZodType_Zod compiledChildren_def)
  qed (use s child in \<open>auto simp: processZodType_Zod compiledChildren_def\<close>)
qed

lemma returns_unfoldsFinitely:
  assumes "processZodType getter zodSchema = Some result"
  shows "unfoldsFinitely getter zodSchema"
  using assms
proof (induct getter zodSchema result
    rule: processZodType.raw_induct [rotated, consumes 1, case_names step])
  case (step compile getter zodSchema result)
  have "unfoldsFinitely getter c" if "c \<in> set (compiledChildren getter zodSchema)" for c
  proof -
    from that step(2) have "\<exists>y. compile getter c = Some y"
      by (cases "zdef zodSchema")
         (auto simp: compiledChildren_def bind_eq_Some_conv mapM_Some_iff
            dest: list_all2_args list_all2_args_snd)
    with step(1) show ?thesis by blast
  qed
  then show ?case
    by (rule unfoldsFinitely.unfold)
qed

lemma category_never_unfolds:
  assumes "unfoldsFinitely getter zodSchema"
  shows "getter = categoryGetter \<longrightarrow>
     zodSchema \<notin> {category, Zod None (ZodOptional (Zod None (ZodLazy 0))),
                   Zod None (ZodLazy 0)}"
  using assms
proof (induction rule: unfoldsFinitely.induct)
  case (unfold zodSchema)
  show ?case
  proof (intro impI notI)
    assume g: "getter = categoryGetter"
      and "zodSchema \<in> {category, Zod None (ZodOptional (Zod None (ZodLazy 0))),
                       Zod None (ZodLazy 0)}"
    then consider "zodSchema = category"
      | "zodSchema = Zod None (ZodOptional (Zod None (ZodLazy 0)))"
      | "zodSchema = Zod None (ZodLazy 0)"
      by blast
    then show False
    proof cases
      case 1
      with g unfold.IH [of "Zod None (ZodOptional (Zod None (ZodLazy 0)))"] show False
        by (simp add: compiledChildren_def category_def)
    next
      case 2
      with g unfold.IH [of "Zod None (ZodLazy 0)"] show False
        by (simp add: compiledChildren_def)
    next
      case 3
      with g unfold.IH [of category] show False
        by (simp add: compiledChildren_def categoryGetter_def)
    qed
  qed
qed

subsection \<open>Unfolding a tool invocation\<close>

lemmas executeTool_defs =
  executeToolWithDefinition_def callOnStart_def callImplementation_def callOnComplete_def

lemma executeTool_started:
  assumes "(onStart toolDef = None \<and> w1 = w)
      \<or> (\<exists>hook. onStart toolDef = Some hook \<and> hook args w = (Inr (), w1))"
  shows "callOnStart toolDef args (w, []) =
    (Inr (), w1, case onStart toolDef of None \<Rightarrow> [] | Some _ \<Rightarrow> [OnStartCalled args])"
  using assms by (auto simp: callOnStart_def)

lemma executeTool_rejected:
  assumes "(onStart toolDef = None \<and> w1 = w)
      \<or> (\<exists>hook. onStart toolDef = Some hook \<and> hook args w = (Inr (), w1))"
    and "implementation toolDef args w1 = (Inl e, w2)"
  shows "executeToolWithDefinition toolDef args (w, []) =
    (Inl e, w2,
     (case onStart toolDef of None \<Rightarrow> [] | Some _ \<Rightarrow> [OnStartCalled args])
       @ [ImplementationCalled args, ImplementationRejected e])"
  using executeTool_started [OF assms(1)] assms(2)
  by (simp add: executeToolWithDefinition_def callImplementation_def)

lemma executeTool_resolved_no_hook:
  assumes "(onStart toolDef = None \<and> w1 = w)
      \<or> (\<exists>hook. onStart toolDef = Some hook \<and> hook args w = (Inr (), w1))"
    and "implementation toolDef args w1 = (Inr r, w2)"
    and "onComplete toolDef = None"
  shows "executeToolWithDefinition toolDef args (w, []) =
    (Inr r, w2,
     (case onStart toolDef of None \<Rightarrow> [] | Some _ \<Rightarrow> [OnStartCalled args])
       @ [ImplementationCalled args, ImplementationResolved r])"
  using executeTool_started [OF assms(1)] assms(2,3)
  by (simp add: executeToolWithDefinition_def callImplementation_def callOnComplete_def)

lemma executeTool_resolved_hook:
  assumes "(onStart toolDef = None \<and> w1 = w)
      \<or> (\<exists>hook. onStart toolDef = Some hook \<and> hook args w = (Inr (), w1))"
    and "implementation toolDef args w1 = (Inr r, w2)"
    and "onComplete toolDef = Some hook" and "hook args r w2 = (u, w3)"
  shows "executeToolWithDefinition toolDef args (w, []) =
    (case u of Inl e \<Rightarrow> Inl e | Inr _ \<Rightarrow> Inr r, w3,
     (case onStart toolDef of None \<Rightarrow> [] | Some _ \<Rightarrow> [OnStartCalled args])
       @ [ImplementationCalled args, ImplementationResolved r, OnCompleteCalled args r])"
  using executeTool_started [OF assms(1)] assms(2,3,4)
  by (simp add: executeToolWithDefinition_def callImplementation_def callOnComplete_def
      split: sum.splits)

lemma executeTool_calls_implementation:
  assumes "(onStart toolDef = None \<and> w1 = w)
      \<or> (\<exists>hook. onStart toolDef = Some hook \<and> hook args w = (Inr (), w1))"
    and "executeToolWithDefinition toolDef args (w, []) = (outcome, w', log)"
  shows "ImplementationCalled args \<in> set log"
proof (cases "implementation toolDef args w1")
  case (Pair res w2)
  show ?thesis
  proof (cases res)
    case (Inl e)
    with Pair executeTool_rejected [OF assms(1), of e w2] assms(2) show ?thesis
      by auto
  next
    case (Inr r)
    show ?thesis
    proof (cases "onComplete toolDef")
      case None
      with Pair Inr executeTool_resolved_no_hook [OF assms(1), of r w2] assms(2)
      show ?thesis by auto
    next
      case (Some hook)
      obtain u w3 where "hook args r w2 = (u, w3)"
        by (cases "hook args r w2")
      with Some Pair Inr executeTool_resolved_hook [OF assms(1), of r w2 hook u w3] assms(2)
      show ?thesis by auto
    qed
  qed
qed

section \<open>Properties stated by the specification\<close>

text \<open>
  C1. Whenever the compiler returns, every object node of the result, at any depth,
  whether it comes from an object schema or from a record schema, has
  \<^verbatim>\<open>additionalProperties\<close> equal to \<^verbatim>\<open>false\<close>.
\<close>

theorem compiled_objects_closed:
  assumes "processZodType getter zodSchema = Some result"
  shows "closedObjects result"
  using assms
proof (induct getter zodSchema result
    rule: processZodType.raw_induct [rotated, consumes 1, case_names step])
  case (step compile getter zodSchema result)
  have children: "\<forall>y \<in> set ys. closedObjects y" if "mapM (compile getter) xs = Some ys" for xs ys
    using that step(1) list_all2_results [of "compile getter" xs ys closedObjects]
    by (simp add: mapM_Some_iff)
  show ?case
    using step
    by (cases "zdef zodSchema")
       (auto simp: bind_eq_Some_conv processLiteral_def processEnum_def
          processNativeEnum_def processIntersection_def processRecord_def
          processNullable_def processDefault_def emptySchema_def
          closedObjects_processObject dest: children)
qed

theorem compiled_objects_closed_witness:
  "processZodType noLazy
     (Zod None (ZodObject
        [(''tags'', Zod None (ZodRecord (Zod None (ZodString [])) (Zod None ZodNumber))),
         (''owner'', Zod None (ZodNullable (Zod None (ZodObject
            [(''name'', Zod None (ZodString []))]))))]))
   = Some (JsonSchema (Some ''object'')
       (Some [(''tags'', processRecord),
              (''owner'', anyOfSchema
                 [JsonSchema (Some ''object'') (Some [(''name'', typeSchema ''string'')])
                    (Some [''name'']) (Some False) None None None None None None None
                    None None,
                  typeSchema ''null''])])
       (Some [''tags'', ''owner'']) (Some False) None None None None None None None None
       None)
   \<and> closedObjects (JsonSchema (Some ''object'')
       (Some [(''tags'', processRecord),
              (''owner'', anyOfSchema
                 [JsonSchema (Some ''object'') (Some [(''name'', typeSchema ''string'')])
                    (Some [''name'']) (Some False) None None None None None None None
                    None None,
                  typeSchema ''null''])])
       (Some [''tags'', ''owner'']) (Some False) None None None None None None None None
       None)"
  (is "?run = Some ?r \<and> _")
proof -
  have run: "?run = Some ?r"
    by code_simp
  from compiled_objects_closed [OF run] run show ?thesis
    by simp
qed

text \<open>
  C2, as amended. For an object schema that unfolds finitely and has a
  nullable-wrapped field (the keys of a shape are distinct), the compiler returns a
  result in which the field's key is in \<^verbatim>\<open>required\<close>. The nullable wrapper
  itself compiles to exactly \<^verbatim>\<open>{anyOf: [compiledInner, {type: "null"}]}\<close>, and
  for a key other than \<^verbatim>\<open>__proto__\<close> the field's property in the result is that
  shape, to which \<^verbatim>\<open>processObject\<close> adds the field's description when the field
  has a non-empty one.
\<close>

theorem nullable_field_required_anyOf:
  assumes "unfoldsFinitely getter (Zod d (ZodObject shape))"
    and "distinct (map fst shape)"
    and "(key, field) \<in> set shape"
    and "zdef field = ZodNullable innerType"
  shows "\<exists>result compiledInner.
    processZodType getter (Zod d (ZodObject shape)) = Some result \<and>
    processZodType getter innerType = Some compiledInner \<and>
    processZodType getter field = Some (anyOfSchema [compiledInner, typeSchema ''null'']) \<and>
    key \<in> set (requiredKeys result) \<and>
    (key \<noteq> ''__proto__'' \<longrightarrow>
       property result key =
         Some (case zdescription field of
                 None \<Rightarrow> anyOfSchema [compiledInner, typeSchema ''null'']
               | Some text \<Rightarrow>
                   if text = [] then anyOfSchema [compiledInner, typeSchema ''null'']
                   else set_description text
                          (anyOfSchema [compiledInner, typeSchema ''null''])))"
proof -
  from unfoldsFinitely_returns [OF assms(1)] obtain result
    where run: "processZodType getter (Zod d (ZodObject shape)) = Some result"
    by blast
  have "\<not> isOptional field"
    using assms(4) by (simp add: isOptional_def)
  with assms(3) have req: "key \<in> set (requiredKeys result)"
    by (force simp: compiled_required [OF run])
  from compiled_fields [OF run assms(3)] obtain c
    where c: "processZodType getter field = Some c"
    by blast
  from c assms(4) obtain compiledInner
    where inner: "processZodType getter innerType = Some compiledInner"
      and shape: "c = anyOfSchema [compiledInner, typeSchema ''null'']"
    by (cases field) (auto simp: processZodType_Zod bind_eq_Some_conv processNullable_def)
  have "property result key = Some (withDescription field c)" if "key \<noteq> ''__proto__''"
    using compiled_property [OF run assms(2,3) that] c by simp
  with c inner shape run req show ?thesis
    by (auto simp: withDescription_def)
qed

theorem nullable_field_required_anyOf_witness:
  "\<exists>result compiledInner.
     processZodType noLazy profile = Some result \<and>
     processZodType noLazy (Zod None ZodBoolean) = Some compiledInner \<and>
     processZodType noLazy (Zod (Some ''flag'') (ZodNullable (Zod None ZodBoolean)))
       = Some (anyOfSchema [compiledInner, typeSchema ''null'']) \<and>
     ''c'' \<in> set (requiredKeys result) \<and>
     property result ''c'' =
       Some (set_description ''flag'' (anyOfSchema [compiledInner, typeSchema ''null'']))"
proof -
  have "unfoldsFinitely noLazy profile"
    using profile_compiled by (rule returns_unfoldsFinitely)
  then have finite: "unfoldsFinitely noLazy (Zod None (ZodObject
       [(''a'', Zod None (ZodString [])),
        (''b'', Zod None (ZodOptional (Zod None ZodNumber))),
        (''c'', Zod (Some ''flag'') (ZodNullable (Zod None ZodBoolean))),
        (''n'', Zod None (ZodDefault (Zod None ZodNumber) (JNum 5)))]))"
    by (simp add: profile_def)
  from nullable_field_required_anyOf [OF finite, of "''c''"
      "Zod (Some ''flag'') (ZodNullable (Zod None ZodBoolean))" "Zod None ZodBoolean"]
  show ?thesis
    by (simp add: profile_def)
qed

text \<open>
  Without the amendment the statement fails where the nullable field carries a
  description, as in \<^verbatim>\<open>z.object({c: z.boolean().nullable().describe("flag")})\<close>:
  the property is the \<^verbatim>\<open>anyOf\<close> shape with a \<^verbatim>\<open>description\<close> entry, not
  exactly the \<^verbatim>\<open>anyOf\<close> shape.
\<close>

theorem nullable_described_counterexample:
  "processZodType noLazy
     (Zod None (ZodObject
        [(''c'', Zod (Some ''flag'') (ZodNullable (Zod None ZodBoolean)))]))
   = Some (JsonSchema (Some ''object'')
       (Some [(''c'', JsonSchema None None None None None None None
                  (Some [typeSchema ''boolean'', typeSchema ''null''])
                  None None (Some ''flag'') None None)])
       (Some [''c'']) (Some False) None None None None None None None None None)
   \<and> processZodType noLazy (Zod None ZodBoolean) = Some (typeSchema ''boolean'')
   \<and> JsonSchema None None None None None None None
        (Some [typeSchema ''boolean'', typeSchema ''null''])
        None None (Some ''flag'') None None
      \<noteq> anyOfSchema [typeSchema ''boolean'', typeSchema ''null'']"
  by code_simp

text \<open>
  C3. An invocation calls \<^verbatim>\<open>onStart\<close>, when present, first, so before
  \<^verbatim>\<open>implementation\<close>. When \<^verbatim>\<open>onStart\<close> is absent or returns,
  \<^verbatim>\<open>implementation\<close> is called with the given arguments, in the world
  \<^verbatim>\<open>onStart\<close> left. When it resolves, \<^verbatim>\<open>onComplete\<close>, when present, is called
  right after, with the arguments and the result, in the world \<^verbatim>\<open>implementation\<close>
  left, and the result is returned (when \<^verbatim>\<open>onComplete\<close> is absent or returns). When
  \<^verbatim>\<open>implementation\<close> rejects, \<^verbatim>\<open>onComplete\<close> is not called and the invocation
  rejects with the same error. In each case the log, the outcome and the world left
  are those of these calls and no others.
\<close>

theorem executeTool_hook_order:
  assumes "executeToolWithDefinition toolDef args (w, []) = (outcome, w', log)"
  shows "(onStart toolDef \<noteq> None \<longrightarrow> (\<exists>rest. log = OnStartCalled args # rest))
    \<and> (\<forall>a pre post. log = pre @ ImplementationCalled a # post \<longrightarrow>
          a = args \<and> (onStart toolDef \<noteq> None \<longrightarrow> pre = [OnStartCalled args]))
    \<and> (\<forall>r. ImplementationResolved r \<in> set log \<longrightarrow> onComplete toolDef \<noteq> None \<longrightarrow>
          OnCompleteCalled args r \<in> set log)
    \<and> (\<forall>a r. OnCompleteCalled a r \<in> set log \<longrightarrow>
          a = args \<and>
          (\<exists>pre. log = pre @ [ImplementationCalled args, ImplementationResolved r,
                              OnCompleteCalled args r]))
    \<and> (\<forall>e. ImplementationRejected e \<in> set log \<longrightarrow>
          outcome = Inl e \<and> (\<forall>a r. OnCompleteCalled a r \<notin> set log))
    \<and> (\<forall>w1. (onStart toolDef = None \<and> w1 = w)
            \<or> (\<exists>hook. onStart toolDef = Some hook \<and> hook args w = (Inr (), w1)) \<longrightarrow>
          ImplementationCalled args \<in> set log
          \<and> (\<forall>e w2. implementation toolDef args w1 = (Inl e, w2) \<longrightarrow>
                outcome = Inl e \<and> w' = w2 \<and>
                log = (case onStart toolDef of None \<Rightarrow> [] | Some _ \<Rightarrow> [OnStartCalled args])
                        @ [ImplementationCalled args, ImplementationRejected e])
          \<and> (\<forall>r w2. implementation toolDef args w1 = (Inr r, w2) \<longrightarrow>
                (onComplete toolDef = None \<longrightarrow>
                   outcome = Inr r \<and> w' = w2 \<and>
                   log = (case onStart toolDef of None \<Rightarrow> []
                          | Some _ \<Rightarrow> [OnStartCalled args])
                           @ [ImplementationCalled args, ImplementationResolved r])
                \<and> (\<forall>hook u w3. onComplete toolDef = Some hook \<and> hook args r w2 = (u, w3) \<longrightarrow>
                      outcome = (case u of Inl e \<Rightarrow> Inl e | Inr _ \<Rightarrow> Inr r) \<and> w' = w3 \<and>
                      log = (case onStart toolDef of None \<Rightarrow> []
                             | Some _ \<Rightarrow> [OnStartCalled args])
                              @ [ImplementationCalled args, ImplementationResolved r,
                                 OnCompleteCalled args r])))"
proof -
  have order: "(onStart toolDef \<noteq> None \<longrightarrow> (\<exists>rest. log = OnStartCalled args # rest))
    \<and> (\<forall>a pre post. log = pre @ ImplementationCalled a # post \<longrightarrow>
          a = args \<and> (onStart toolDef \<noteq> None \<longrightarrow> pre = [OnStartCalled args]))
    \<and> (\<forall>r. ImplementationResolved r \<in> set log \<longrightarrow> onComplete toolDef \<noteq> None \<longrightarrow>
          OnCompleteCalled args r \<in> set log)
    \<and> (\<forall>a r. OnCompleteCalled a r \<in> set log \<longrightarrow>
          a = args \<and>
          (\<exists>pre. log = pre @ [ImplementationCalled args, ImplementationResolved r,
                              OnCompleteCalled args r]))
    \<and> (\<forall>e. ImplementationRejected e \<in> set log \<longrightarrow>
          outcome = Inl e \<and> (\<forall>a r. OnCompleteCalled a r \<notin> set log))"
    using assms
    by (auto simp: executeTool_defs Cons_eq_append_conv append_eq_Cons_conv
        split: option.splits prod.splits sum.splits)
  have run: "ImplementationCalled args \<in> set log
          \<and> (\<forall>e w2. implementation toolDef args w1 = (Inl e, w2) \<longrightarrow>
                outcome = Inl e \<and> w' = w2 \<and>
                log = (case onStart toolDef of None \<Rightarrow> [] | Some _ \<Rightarrow> [OnStartCalled args])
                        @ [ImplementationCalled args, ImplementationRejected e])
          \<and> (\<forall>r w2. implementation toolDef args w1 = (Inr r, w2) \<longrightarrow>
                (onComplete toolDef = None \<longrightarrow>
                   outcome = Inr r \<and> w' = w2 \<and>
                   log = (case onStart toolDef of None \<Rightarrow> []
                          | Some _ \<Rightarrow> [OnStartCalled args])
                           @ [ImplementationCalled args, ImplementationResolved r])
                \<and> (\<forall>hook u w3. onComplete toolDef = Some hook \<and> hook args r w2 = (u, w3) \<longrightarrow>
                      outcome = (case u of Inl e \<Rightarrow> Inl e | Inr _ \<Rightarrow> Inr r) \<and> w' = w3 \<and>
                      log = (case onStart toolDef of None \<Rightarrow> []
                             | Some _ \<Rightarrow> [OnStartCalled args])
                              @ [ImplementationCalled args, ImplementationResolved r,
                                 OnCompleteCalled args r]))"
    if start: "(onStart toolDef = None \<and> w1 = w)
        \<or> (\<exists>hook. onStart toolDef = Some hook \<and> hook args w = (Inr (), w1))" for w1
  proof -
    have called: "ImplementationCalled args \<in> set log"
      using start assms by (rule executeTool_calls_implementation)
    have rejected: "outcome = Inl e \<and> w' = w2 \<and>
        log = (case onStart toolDef of None \<Rightarrow> [] | Some _ \<Rightarrow> [OnStartCalled args])
                @ [ImplementationCalled args, ImplementationRejected e]"
      if "implementation toolDef args w1 = (Inl e, w2)" for e w2
      using executeTool_rejected [OF start that] assms by simp
    have resolved: "outcome = Inr r \<and> w' = w2 \<and>
        log = (case onStart toolDef of None \<Rightarrow> [] | Some _ \<Rightarrow> [OnStartCalled args])
                @ [ImplementationCalled args, ImplementationResolved r]"
      if "implementation toolDef args w1 = (Inr r, w2)" "onComplete toolDef = None" for r w2
      using executeTool_resolved_no_hook [OF start that] assms by simp
    have completed: "outcome = (case u of Inl e \<Rightarrow> Inl e | Inr _ \<Rightarrow> Inr r) \<and> w' = w3 \<and>
        log = (case onStart toolDef of None \<Rightarrow> [] | Some _ \<Rightarrow> [OnStartCalled args])
                @ [ImplementationCalled args, ImplementationResolved r,
                   OnCompleteCalled args r]"
      if "implementation toolDef args w1 = (Inr r, w2)"
        "onComplete toolDef = Some hook \<and> hook args r w2 = (u, w3)" for r w2 hook u w3
      using executeTool_resolved_hook [OF start that(1), of hook u w3] that(2) assms by simp
    show ?thesis
      apply (rule conjI, rule called)
      apply (rule conjI)
       apply (intro allI impI, erule rejected)
      apply (intro allI impI)
      apply (rule conjI)
       apply (rule impI, erule (1) resolved)
      apply (intro allI impI, erule (1) completed)
      done
  qed
  from order show ?thesis
    apply (elim conjE)
    apply (intro conjI)
         apply assumption+
    apply (intro allI impI, erule run)
    done
qed

theorem executeTool_hook_order_witness:
  "executeToolWithDefinition renderedTool 3 ([], [])
     = (Inr 6, [''start'', ''run'', ''success''],
        [OnStartCalled 3, ImplementationCalled 3, ImplementationResolved 6,
         OnCompleteCalled 3 6])
   \<and> executeToolWithDefinition renderedTool 0 ([], [])
     = (Inl ''boom'', [''start'', ''run''],
        [OnStartCalled 0, ImplementationCalled 0, ImplementationRejected ''boom''])
   \<and> (\<forall>a r. OnCompleteCalled a r
            \<notin> set [OnStartCalled 0, ImplementationCalled 0,
                     ImplementationRejected ''boom'' :: (nat, nat, string) event])"
proof -
  have ok: "executeToolWithDefinition renderedTool 3 ([], [])
     = (Inr 6, [''start'', ''run'', ''success''],
        [OnStartCalled 3, ImplementationCalled 3, ImplementationResolved 6,
         OnCompleteCalled 3 6])"
    by (simp add: executeTool_defs renderedTool_def)
  have bad: "executeToolWithDefinition renderedTool 0 ([], [])
     = (Inl ''boom'', [''start'', ''run''],
        [OnStartCalled 0, ImplementationCalled 0, ImplementationRejected ''boom''])"
    by (simp add: executeTool_defs renderedTool_def)
  from executeTool_hook_order [OF bad] ok bad show ?thesis
    by simp
qed

text \<open>
  C4, as amended. When \<^verbatim>\<open>onStart\<close> throws, the invocation is blocked: it rejects
  with the hook's error, in the world the hook left, and \<^verbatim>\<open>implementation\<close> is
  not called. When \<^verbatim>\<open>onStart\<close> is absent or returns, \<^verbatim>\<open>implementation\<close> is called
  with the given arguments, in the world \<^verbatim>\<open>onStart\<close> left; when it rejects, the
  invocation rejects with its error, and when it resolves, its result is returned
  unless \<^verbatim>\<open>onComplete\<close> throws, and then the invocation rejects with the error
  \<^verbatim>\<open>onComplete\<close> threw.
\<close>

theorem onStart_failure_blocks_call:
  assumes "executeToolWithDefinition toolDef args (w, []) = (outcome, w', log)"
  shows "(\<forall>hook e w1. onStart toolDef = Some hook \<and> hook args w = (Inl e, w1) \<longrightarrow>
            outcome = Inl e \<and> w' = w1 \<and> log = [OnStartCalled args])
    \<and> (\<forall>w1. (onStart toolDef = None \<and> w1 = w)
            \<or> (\<exists>hook. onStart toolDef = Some hook \<and> hook args w = (Inr (), w1)) \<longrightarrow>
          ImplementationCalled args \<in> set log
          \<and> (\<forall>e w2. implementation toolDef args w1 = (Inl e, w2) \<longrightarrow> outcome = Inl e)
          \<and> (\<forall>r w2. implementation toolDef args w1 = (Inr r, w2) \<longrightarrow>
                (onComplete toolDef = None \<longrightarrow> outcome = Inr r)
                \<and> (\<forall>hook w3. onComplete toolDef = Some hook \<longrightarrow>
                      (hook args r w2 = (Inr (), w3) \<longrightarrow> outcome = Inr r)
                      \<and> (\<forall>e. hook args r w2 = (Inl e, w3) \<longrightarrow> outcome = Inl e))))"
proof -
  have blocked: "\<forall>hook e w1. onStart toolDef = Some hook \<and> hook args w = (Inl e, w1) \<longrightarrow>
            outcome = Inl e \<and> w' = w1 \<and> log = [OnStartCalled args]"
    using assms
    by (auto simp: executeTool_defs split: option.splits prod.splits sum.splits)
  have run: "ImplementationCalled args \<in> set log
          \<and> (\<forall>e w2. implementation toolDef args w1 = (Inl e, w2) \<longrightarrow> outcome = Inl e)
          \<and> (\<forall>r w2. implementation toolDef args w1 = (Inr r, w2) \<longrightarrow>
                (onComplete toolDef = None \<longrightarrow> outcome = Inr r)
                \<and> (\<forall>hook w3. onComplete toolDef = Some hook \<longrightarrow>
                      (hook args r w2 = (Inr (), w3) \<longrightarrow> outcome = Inr r)
                      \<and> (\<forall>e. hook args r w2 = (Inl e, w3) \<longrightarrow> outcome = Inl e)))"
    if start: "(onStart toolDef = None \<and> w1 = w)
        \<or> (\<exists>hook. onStart toolDef = Some hook \<and> hook args w = (Inr (), w1))" for w1
  proof -
    have called: "ImplementationCalled args \<in> set log"
      using start assms by (rule executeTool_calls_implementation)
    have rejected: "outcome = Inl e"
      if "implementation toolDef args w1 = (Inl e, w2)" for e w2
      using executeTool_rejected [OF start that] assms by simp
    have resolved: "outcome = Inr r"
      if "implementation toolDef args w1 = (Inr r, w2)" "onComplete toolDef = None" for r w2
      using executeTool_resolved_no_hook [OF start that] assms by simp
    have returned: "outcome = Inr r"
      if "implementation toolDef args w1 = (Inr r, w2)" "onComplete toolDef = Some hook"
        "hook args r w2 = (Inr (), w3)" for r w2 hook w3
      using executeTool_resolved_hook [OF start that] assms by simp
    have thrown: "outcome = Inl e"
      if "implementation toolDef args w1 = (Inr r, w2)" "onComplete toolDef = Some hook"
        "hook args r w2 = (Inl e, w3)" for r w2 hook w3 e
      using executeTool_resolved_hook [OF start that] assms by simp
    from called rejected resolved returned thrown show ?thesis
      by blast
  qed
  from blocked run show ?thesis
    by blast
qed

theorem onStart_failure_blocks_call_witness:
  "executeToolWithDefinition failingStartTool 1 ([], [])
     = (Inl ''render failed'', [], [OnStartCalled 1])
   \<and> executeToolWithDefinition renderedTool 3 ([], [])
     = (Inr 6, [''start'', ''run'', ''success''],
        [OnStartCalled 3, ImplementationCalled 3, ImplementationResolved 6,
         OnCompleteCalled 3 6])
   \<and> ImplementationCalled 3
       \<in> set [OnStartCalled 3, ImplementationCalled 3, ImplementationResolved 6,
               OnCompleteCalled 3 (6::nat) :: (nat, nat, string) event]"
proof -
  have blocked: "executeToolWithDefinition failingStartTool 1 ([], [])
     = (Inl ''render failed'', [], [OnStartCalled 1])"
    by (simp add: executeTool_defs failingStartTool_def)
  have ok: "executeToolWithDefinition renderedTool 3 ([], [])
     = (Inr 6, [''start'', ''run'', ''success''],
        [OnStartCalled 3, ImplementationCalled 3, ImplementationResolved 6,
         OnCompleteCalled 3 6])"
    by (simp add: executeTool_defs renderedTool_def)
  from onStart_failure_blocks_call [OF ok] onStart_failure_blocks_call [OF blocked]
    blocked ok
  show ?thesis
    by simp
qed

text \<open>
  Without the amendment the statement fails for a tool whose \<^verbatim>\<open>onStart\<close> throws:
  the invocation rejects with the hook's error, the implementation, which would have
  resolved, is never called, and nothing is returned.
\<close>

theorem onStart_failure_counterexample:
  "executeToolWithDefinition failingStartTool 1 ([], [])
     = (Inl ''render failed'', [], [OnStartCalled 1])
   \<and> implementation failingStartTool 1 [] = (Inr 2, [''run''])"
  by (simp add: executeTool_defs failingStartTool_def)

text \<open>
  C5. A native enum should compile to the value half of its mapping only, a numeric one
  to its numeric values and not to its member names, and the comment in
  \<^verbatim>\<open>processNativeEnum\<close> says so. The function does not do that: for
  \<^verbatim>\<open>enum Color { Red, Green }\<close> its filter keeps the strings of the reverse
  mappings as well, and the emitted list is \<^verbatim>\<open>["Red", "Green", 0, 1]\<close>.
\<close>

theorem nativeEnum_numeric_emits_names:
  "processZodType noLazy (Zod None (ZodNativeEnum colorEnum))
   = Some (JsonSchema None None None None None
       (Some [JStr ''Red'', JStr ''Green'', JNum 0, JNum 1])
       None None None None None None None)"
  by code_simp

text \<open>
  C6. When the compiled root of a schema has a \<^verbatim>\<open>type\<close> other than
  \<^verbatim>\<open>"object"\<close>, \<^verbatim>\<open>createAnthropicOutputFormat\<close> returns the synthetic object with
  the single property \<^verbatim>\<open>result\<close> holding the root, \<^verbatim>\<open>required\<close> equal to
  \<^verbatim>\<open>["result"]\<close> and \<^verbatim>\<open>additionalProperties\<close> false; for a plain string
  schema that is \<^verbatim>\<open>{type: "object", properties: {result: {type: "string"}},
  required: ["result"], additionalProperties: false}\<close>.
\<close>

theorem non_object_root_wrapped:
  "(\<forall>root. zodToJsonSchema getter zodSchema = Some root \<longrightarrow> type root \<noteq> Some ''object'' \<longrightarrow>
      createAnthropicOutputFormat getter zodSchema =
        Some \<lparr>format_type = ''json_schema'',
              schema = JsonSchema (Some ''object'') (Some [(''result'', root)])
                         (Some [''result'']) (Some False) None None None None None None
                         None None None\<rparr>)
   \<and> createAnthropicOutputFormat getter (Zod d (ZodString [])) =
        Some \<lparr>format_type = ''json_schema'',
              schema = JsonSchema (Some ''object'')
                         (Some [(''result'', JsonSchema (Some ''string'') None None None
                                   None None None None None None None None None)])
                         (Some [''result'']) (Some False) None None None None None None
                         None None None\<rparr>"
  by (simp add: createAnthropicOutputFormat_def zodToJsonSchema_def processZodType_Zod
      processString_def typeSchema_def)

theorem non_object_root_wrapped_witness:
  "zodToJsonSchema noLazy (Zod None (ZodArray (Zod None ZodBoolean) None))
     = Some (processArray (typeSchema ''boolean'') None)
   \<and> createAnthropicOutputFormat noLazy (Zod None (ZodArray (Zod None ZodBoolean) None)) =
     Some \<lparr>format_type = ''json_schema'',
           schema = JsonSchema (Some ''object'')
                      (Some [(''result'', processArray (typeSchema ''boolean'') None)])
                      (Some [''result'']) (Some False) None None None None None None
                      None None None\<rparr>"
proof -
  have run: "zodToJsonSchema noLazy (Zod None (ZodArray (Zod None ZodBoolean) None))
      = Some (processArray (typeSchema ''boolean'') None)"
    by (simp add: zodToJsonSchema_def processZodType_Zod)
  have root: "type (processArray (typeSchema ''boolean'') None) \<noteq> Some ''object''"
    by (simp add: processArray_def)
  from non_object_root_wrapped [of noLazy "Zod None (ZodArray (Zod None ZodBoolean) None)"]
    run root
  show ?thesis
    by blast
qed



text \<open>
  C8. For an array schema that unfolds finitely the compiler returns an array
  schema; when the declared minimum length is 0 or 1, \<^verbatim>\<open>minItems\<close> is that
  value, and when it is 2 or more, or absent, the result has no \<^verbatim>\<open>minItems\<close>.
\<close>

theorem array_minItems:
  assumes "unfoldsFinitely getter (Zod d (ZodArray elementType minLength))"
  shows "\<exists>result.
    processZodType getter (Zod d (ZodArray elementType minLength)) = Some result
    \<and> type result = Some ''array''
    \<and> (minLength = Some 0 \<or> minLength = Some 1 \<longrightarrow> minItems result = minLength)
    \<and> (minLength = None \<or> (\<exists>n. minLength = Some n \<and> 2 \<le> n) \<longrightarrow> minItems result = None)"
proof -
  from unfoldsFinitely_returns [OF assms] obtain result
    where run: "processZodType getter (Zod d (ZodArray elementType minLength)) = Some result"
    by blast
  then obtain compiledItems where result: "result = processArray compiledItems minLength"
    by (auto simp: processZodType_Zod bind_eq_Some_conv)
  have "type result = Some ''array''"
    by (simp add: result type_processArray)
  moreover have "minItems result = minLength" if "minLength = Some 0 \<or> minLength = Some 1"
    using that by (simp add: result minItems_processArray)
  moreover have "minItems result = None"
    if "minLength = None \<or> (\<exists>n. minLength = Some n \<and> 2 \<le> n)"
    using that by (auto simp: result minItems_processArray)
  ultimately show ?thesis
    using run by blast
qed

theorem array_minItems_witness:
  "minItems (processArray (typeSchema ''string'') (Some 1)) = Some 1
   \<and> minItems (processArray (typeSchema ''string'') (Some 2)) = None"
proof -
  have one: "processZodType noLazy (Zod None (ZodArray (Zod None (ZodString [])) (Some 1)))
      = Some (processArray (typeSchema ''string'') (Some 1))"
    by (simp add: processZodType_Zod processString_def)
  have two: "processZodType noLazy (Zod None (ZodArray (Zod None (ZodString [])) (Some 2)))
      = Some (processArray (typeSchema ''string'') (Some 2))"
    by (simp add: processZodType_Zod processString_def)
  from array_minItems [OF returns_unfoldsFinitely [OF one]]
    array_minItems [OF returns_unfoldsFinitely [OF two]] one two
  show ?thesis
    by simp
qed

text \<open>
  C9, as amended. The compiler returns exactly for the schemas that unfold finitely:
  every chain of compiled children, the schemas that lazy getters return included,
  ends. An optional wrapper or a union arm on the way does not stop the recursion.
\<close>

theorem compile_terminates_iff_unfoldsFinitely:
  "(\<exists>result. processZodType getter zodSchema = Some result)
     \<longleftrightarrow> unfoldsFinitely getter zodSchema"
  using unfoldsFinitely_returns returns_unfoldsFinitely by blast

theorem compile_terminates_iff_unfoldsFinitely_witness:
  "unfoldsFinitely (\<lambda>ref. Zod None (ZodString []))
     (Zod None (ZodOptional (Zod None (ZodLazy 0))))
   \<and> \<not> unfoldsFinitely categoryGetter category"
proof -
  have run: "\<exists>result. processZodType (\<lambda>ref. Zod None (ZodString []))
      (Zod None (ZodOptional (Zod None (ZodLazy 0)))) = Some result"
    by (simp add: processZodType_Zod)
  have loop: "\<not> (\<exists>result. processZodType categoryGetter category = Some result)"
    using category_never_unfolds returns_unfoldsFinitely by fastforce
  from run loop show ?thesis
    unfolding compile_terminates_iff_unfoldsFinitely by simp
qed

text \<open>
  Without the amendment the statement fails for \<^const>\<open>category\<close>: its
  self-reference reaches a base case through the optional wrapper of \<^verbatim>\<open>parent\<close>,
  and the compiler does not return on it.
\<close>

theorem guarded_self_reference_diverges:
  "reachesBaseCase categoryGetter category
   \<and> processZodType categoryGetter category = None"
proof
  have name: "reachesBaseCase categoryGetter (Zod None (ZodString []))"
    by (rule reachesBaseCase.descend) (simp add: compiledChildren_def)
  have parent: "reachesBaseCase categoryGetter
      (Zod None (ZodOptional (Zod None (ZodLazy 0))))"
    by (rule reachesBaseCase.optional_arm [of _ "Zod None (ZodLazy 0)"]) simp
  show "reachesBaseCase categoryGetter category"
    by (rule reachesBaseCase.descend)
       (use name parent in \<open>auto simp: compiledChildren_def category_def\<close>)
next
  show "processZodType categoryGetter category = None"
  proof (cases "processZodType categoryGetter category")
    case (Some r)
    from category_never_unfolds [OF returns_unfoldsFinitely [OF Some]] show ?thesis
      by simp
  qed simp
qed

text \<open>
  C10. For an object schema that unfolds finitely and in which every field is
  optional-wrapped or default-wrapped, the compiler returns an object whose
  \<^verbatim>\<open>required\<close> field is \<^verbatim>\<open>undefined\<close>, not the empty list.
\<close>

theorem all_optional_required_undefined:
  assumes "unfoldsFinitely getter (Zod d (ZodObject shape))"
    and "\<forall>kv \<in> set shape.
           (\<exists>innerType. zdef (snd kv) = ZodOptional innerType)
           \<or> (\<exists>innerType defaultValue. zdef (snd kv) = ZodDefault innerType defaultValue)"
  shows "\<exists>result.
    processZodType getter (Zod d (ZodObject shape)) = Some result
    \<and> type result = Some ''object''
    \<and> required result = None"
proof -
  from unfoldsFinitely_returns [OF assms(1)] obtain result
    where run: "processZodType getter (Zod d (ZodObject shape)) = Some result"
    by blast
  from assms(2) have "\<forall>kv \<in> set shape. isOptional (snd kv)"
    by (auto simp: isOptional_def)
  then have none: "filter (\<lambda>kv. \<not> isOptional (snd kv)) shape = []"
    by (simp add: filter_empty_conv)
  from run obtain compiled where result: "result = processObject shape compiled"
    and all: "list_all2 (\<lambda>kv c. processZodType getter (snd kv) = Some c) shape compiled"
    by (rule compiled_object)
  from all have "length compiled = length shape"
    by (simp add: list_all2_lengthD)
  from objectLoop_required [OF this, of "[]" "[]"] none result run show ?thesis
    by (simp add: processObject_def split: prod.splits)
qed

theorem all_optional_required_undefined_witness:
  "\<exists>result. processZodType noLazy settings = Some result
     \<and> type result = Some ''object'' \<and> required result = None"
proof -
  have run: "processZodType noLazy (Zod None (ZodObject
       [(''b'', Zod None (ZodOptional (Zod None ZodNumber))),
        (''n'', Zod None (ZodDefault (Zod None ZodNumber) (JNum 5)))]))
     = Some (processObject
         [(''b'', Zod None (ZodOptional (Zod None ZodNumber))),
          (''n'', Zod None (ZodDefault (Zod None ZodNumber) (JNum 5)))]
         [typeSchema ''number'', processDefault (typeSchema ''number'') (JNum 5)])"
    by (simp add: processZodType_Zod)
  from all_optional_required_undefined [OF returns_unfoldsFinitely [OF run]] show ?thesis
    by (simp add: settings_def)
qed

end
